theory Spec2Isabelle
  imports Main
begin

section \<open>Strings and paths\<close>

text \<open>
  The JavaScript string operations that \<^verbatim>\<open>functionParser.ts\<close> calls, on
  \<open>string\<close> (a list of characters).
\<close>

text \<open>\<^verbatim>\<open>s.split(c)\<close> for a one-character separator: never empty, \<^verbatim>\<open>''.split('/')\<close> is \<^verbatim>\<open>['']\<close>.\<close>

fun split :: "string \<Rightarrow> char \<Rightarrow> string list" where
  "split [] c = [[]]"
| "split (x # xs) c =
     (if x = c then [] # split xs c
      else (case split xs c of [] \<Rightarrow> [[x]] | w # ws \<Rightarrow> (x # w) # ws))"

text \<open>
  \<^verbatim>\<open>s.replace(pat, rep)\<close> with a string pattern: only the first (leftmost) occurrence of
  \<open>pat\<close> is replaced.
\<close>

fun replace :: "string \<Rightarrow> string \<Rightarrow> string \<Rightarrow> string" where
  "replace [] pat rep = (if pat = [] then rep else [])"
| "replace (x # xs) pat rep =
     (if take (length pat) (x # xs) = pat then rep @ drop (length pat) (x # xs)
      else x # replace xs pat rep)"

text \<open>
  \<^verbatim>\<open>xs[i]\<close> on a JavaScript array: \<^verbatim>\<open>undefined\<close> (here \<open>None\<close>) when the index is
  negative or beyond the end. The index is an \<open>int\<close> because \<^verbatim>\<open>length - 2\<close> can be \<open>-1\<close>.
\<close>

definition at_index :: "'a list \<Rightarrow> int \<Rightarrow> 'a option" where
  "at_index xs i = (if 0 \<le> i \<and> i < int (length xs) then Some (xs ! nat i) else None)"

text \<open>\<^verbatim>\<open>x || d\<close> on an optional string: \<^verbatim>\<open>undefined\<close> and the empty string are falsy.\<close>

definition or_else :: "string option \<Rightarrow> string \<Rightarrow> string" where
  "or_else x d = (case x of None \<Rightarrow> d | Some s \<Rightarrow> (if s = [] then d else s))"

text \<open>
  The \<^verbatim>\<open>ParsedPath\<close> of Node's \<^verbatim>\<open>path.parse\<close> (POSIX flavour), an external library: the
  fields the parser reads. Trailing slashes are ignored; \<open>dir\<close> is everything before the
  slash that precedes the last segment (\<^verbatim>\<open>/\<close> for a segment directly under the root, empty
  when there is no slash); \<open>name\<close> is the last segment without its extension, the
  extension starting at the last dot unless that dot opens the segment or the segment is
  \<^verbatim>\<open>..\<close>.
\<close>

record ParsedPath =
  dir :: string
  base :: string
  name :: string

definition strip_ext :: "string \<Rightarrow> string" where
  "strip_ext b =
     (let e = takeWhile (\<lambda>c. c \<noteq> CHR ''.'') (rev b); n = length b - length e - 1
      in if length e = length b then b
         else if n = 0 then b
         else if b = ''..'' then b
         else take n b)"

definition parse :: "string \<Rightarrow> ParsedPath" where
  "parse p =
     (if p = [] then \<lparr>dir = [], base = [], name = []\<rparr>
      else
        let isAbsolute = (hd p = CHR ''/'');
            start = (if isAbsolute then 1 else 0);
            body = rev (dropWhile (\<lambda>c. c = CHR ''/'') (rev (drop start p)));
            b = rev (takeWhile (\<lambda>c. c \<noteq> CHR ''/'') (rev body));
            d = (if length b < length body then take (start + (length body - length b - 1)) p
                 else if isAbsolute then ''/'' else [])
        in \<lparr>dir = d, base = b, name = strip_ext b\<rparr>)"

section \<open>Grouping\<close>

text \<open>
  Lines 87--93 of \<^verbatim>\<open>buildReactiveFunctions\<close>: the group of a background-function file.
\<close>

definition reactiveGroupName :: "bool \<Rightarrow> string \<Rightarrow> string" where
  "reactiveGroupName groupByFolder file =
     (let filePath = parse file;
          directories = split (dir filePath) CHR ''/''
      in if groupByFolder
         then or_else (at_index directories (int (length directories) - 2)) []
         else or_else (at_index directories (int (length directories) - 1)) [])"

text \<open>
  Lines 134--140 of \<^verbatim>\<open>buildRestfulApi\<close>: the group of an endpoint file, written out a
  second time in the source.
\<close>

definition apiGroupName :: "bool \<Rightarrow> string \<Rightarrow> string" where
  "apiGroupName groupByFolder file =
     (let filePath = parse file;
          directories = split (dir filePath) CHR ''/''
      in if groupByFolder
         then or_else (at_index directories (int (length directories) - 2)) []
         else or_else (at_index directories (int (length directories) - 1)) [])"

text \<open>
  The group key in the specification's words: the second-to-last segment of the
  directory path when folder grouping is on, the last one otherwise; the empty string
  when that segment is missing or empty.
\<close>

definition spec_group_key :: "bool \<Rightarrow> string list \<Rightarrow> string" where
  "spec_group_key groupByFolder segments =
     (let back = (if groupByFolder then 2 else 1)
      in if length segments < back then []
         else if segments ! (length segments - back) = [] then []
         else segments ! (length segments - back))"

section \<open>Data model\<close>

text \<open>
  Modelled from the spec: \<^verbatim>\<open>RequestType\<close>, \<^verbatim>\<open>Endpoint\<close> and \<^verbatim>\<open>ParserOptions\<close> are declared in
  \<^verbatim>\<open>./models\<close>, which is not among the sources. The request method is the closed enumeration
  GET, POST, PUT, DELETE, PATCH, each member taken to be its own name as a string, so that a
  descriptor can also carry a value outside the enumeration (\<^verbatim>\<open>"HEAD"\<close>) or none. The
  descriptor has the shape \<^verbatim>\<open>{ name?, requestType, handler, options?: { enableCors?,
  enableFileUpload?, middlewares? } }\<close>; the options of the constructor are \<^verbatim>\<open>{ enableCors?,
  groupByFolder?, buildReactive?, buildEndpoints? }\<close>. An optional field is an \<open>option\<close>.
\<close>

definition RequestType_GET :: string where "RequestType_GET = ''GET''"
definition RequestType_POST :: string where "RequestType_POST = ''POST''"
definition RequestType_PUT :: string where "RequestType_PUT = ''PUT''"
definition RequestType_DELETE :: string where "RequestType_DELETE = ''DELETE''"
definition RequestType_PATCH :: string where "RequestType_PATCH = ''PATCH''"

record 'h EndpointOptions =
  opt_enableCors :: "bool option"
  opt_enableFileUpload :: "bool option"
  opt_middlewares :: "'h list option"

record 'h Endpoint =
  ep_name :: "string option"
  requestType :: "string option"
  handler :: 'h
  options :: "'h EndpointOptions option"

record ParserOptions =
  po_enableCors :: "bool option"
  po_groupByFolder :: "bool option"
  po_buildReactive :: "bool option"
  po_buildEndpoints :: "bool option"

text \<open>
  An express router is the list of the layers registered on it, in registration order:
  \<^verbatim>\<open>router.use(cors())\<close>, \<^verbatim>\<open>router.use(fileUpload())\<close>, and a route registered by
  \<^verbatim>\<open>router.get\<close>, \<^verbatim>\<open>post\<close>, \<^verbatim>\<open>put\<close>, \<^verbatim>\<open>delete\<close> or \<^verbatim>\<open>patch\<close> with its path and its
  handler chain (express flattens \<^verbatim>\<open>middlewares, handler\<close> into one list). A request runs
  through the layers in this order, so a \<open>Use\<close> layer acts on every route behind it.
\<close>

datatype builtin = Cors | FileUpload

datatype verb = Get | Post | Put | Delete | Patch

datatype 'h layer = Use builtin | Route verb string "'h list"

text \<open>
  The objects that \<^verbatim>\<open>buildRestfulApi\<close> allocates and shares by reference: the one
  \<^verbatim>\<open>express()\<close> application of line 129, as the routers mounted on it by \<^verbatim>\<open>app.use('/',
  router)\<close> in mounting order, and the \<^verbatim>\<open>groupRouters\<close> map of line 131. A router is created
  once per group key and never replaced, so the key identifies the router object and the
  map is its store.
\<close>

record 'h Express =
  app :: "string list"
  groupRouters :: "string \<rightharpoonup> 'h layer list"

text \<open>
  A value held in a group's bag of the namespace: a member exported by a module, or the
  result of \<^verbatim>\<open>functions.https.onRequest(app)\<close>, which wraps the application above.
\<close>

datatype 'v exported = Member 'v | OnRequest

type_synonym 'v namespace = "string \<rightharpoonup> (string \<rightharpoonup> 'v exported)"

text \<open>The fields of the class; \<open>exports\<close> is the caller's namespace object, mutated in place.\<close>

record 'v FunctionParser =
  rootPath :: string
  enableCors :: bool
  exports :: "'v namespace"
  verbose :: bool

text \<open>
  What the parser reads from its surroundings: the two \<^verbatim>\<open>glob.sync\<close> listings (in the
  order glob yields them), \<^verbatim>\<open>require(file)\<close> of a background-function module (its exported
  members), \<^verbatim>\<open>require(file).default\<close> of an endpoint module (\<open>None\<close> when the module has no
  default export), and \<^verbatim>\<open>process.env.FUNCTION_NAME\<close>. Console output (\<open>verbose\<close>) is not
  modelled.
\<close>

record ('v, 'h) Env =
  functionFiles :: "string list"
  apiFiles :: "string list"
  requireModule :: "string \<Rightarrow> (string \<rightharpoonup> 'v)"
  requireDefault :: "string \<Rightarrow> 'h Endpoint option"
  FUNCTION_NAME :: "string option"

datatype error = Error string | TypeError

section \<open>The reactive pass\<close>

text \<open>Line 95: the logical name of a background-function file.\<close>

definition functionName :: "string \<Rightarrow> string" where
  "functionName file = replace (name (parse file)) ''.function'' []"

text \<open>
  Lines 97--100: \<^verbatim>\<open>!process.env.FUNCTION_NAME || process.env.FUNCTION_NAME === functionName\<close>.
  An unset variable and the empty string are both falsy.
\<close>

definition selected :: "('v, 'h) Env \<Rightarrow> string \<Rightarrow> bool" where
  "selected env file =
     (case FUNCTION_NAME env of
        None \<Rightarrow> True
      | Some s \<Rightarrow> s = [] \<or> s = functionName file)"

text \<open>\<^verbatim>\<open>{...ns[g]}\<close>: the bag of a group, empty when the group has none.\<close>

definition bag :: "'v namespace \<Rightarrow> string \<Rightarrow> (string \<rightharpoonup> 'v exported)" where
  "bag ns g = (case ns g of None \<Rightarrow> Map.empty | Some b \<Rightarrow> b)"

text \<open>Lines 86--110: the body of the \<^verbatim>\<open>forEach\<close> over the background-function files.\<close>

definition functionFile ::
  "('v, 'h) Env \<Rightarrow> bool \<Rightarrow> string \<Rightarrow> 'v FunctionParser \<Rightarrow> 'v FunctionParser" where
  "functionFile env groupByFolder file this =
     (let groupName = reactiveGroupName groupByFolder file
      in if selected env file
         then
           let exports1 = (case exports this groupName of
                             None \<Rightarrow> (exports this)(groupName \<mapsto> Map.empty)
                           | Some b \<Rightarrow> exports this)
           in this\<lparr>exports := exports1(groupName \<mapsto>
                  bag exports1 groupName ++ (map_option Member \<circ> requireModule env file))\<rparr>
         else this)"

definition buildReactiveFunctions ::
  "('v, 'h) Env \<Rightarrow> bool \<Rightarrow> 'v FunctionParser \<Rightarrow> 'v FunctionParser" where
  "buildReactiveFunctions env groupByFolder this =
     fold (functionFile env groupByFolder) (functionFiles env) this"

section \<open>The endpoint pass\<close>

definition newline :: string where
  "newline = [CHR 0x0A]"

text \<open>Lines 226--231: the message of the error thrown for a request type outside the enumeration.\<close>

definition unsupportedRequestType :: string where
  "unsupportedRequestType =
     ''A unsupported RequestType was defined for a Endpoint.'' @ newline @ newline
     @ ''          Please make sure that the Endpoint file exports a RequestType'' @ newline
     @ ''          using the constants in src/system/constants/requests.ts.'' @ newline @ newline
     @ ''          **This value is required to add the Endpoint to the API**''"

text \<open>Lines 153--155: the message of the error that replaces whatever \<^verbatim>\<open>buildEndpoint\<close> threw.\<close>

definition failedToAdd :: "string \<Rightarrow> string \<Rightarrow> string" where
  "failedToAdd file groupName =
     ''Restful Endpoints - Failed to add the endpoint defined in '' @ file
     @ '' to the '' @ groupName @ '' Api.''"

text \<open>Lines 186--187: \<^verbatim>\<open>endpoint.name || filePath.name.replace('.endpoint', '')\<close>.\<close>

definition endpointName :: "'h Endpoint \<Rightarrow> string \<Rightarrow> string" where
  "endpointName endpoint file =
     or_else (ep_name endpoint) (replace (name (parse file)) ''.endpoint'' [])"

text \<open>\<^verbatim>\<open>endpoint.options?.flag\<close> as a condition: true only for a flag that is set and true.\<close>

definition truthy :: "bool option \<Rightarrow> bool" where
  "truthy b = (case b of None \<Rightarrow> False | Some v \<Rightarrow> v)"

definition endpointCors :: "'h Endpoint \<Rightarrow> bool" where
  "endpointCors endpoint =
     (case options endpoint of None \<Rightarrow> False | Some opts \<Rightarrow> truthy (opt_enableCors opts))"

definition endpointFileUpload :: "'h Endpoint \<Rightarrow> bool" where
  "endpointFileUpload endpoint =
     (case options endpoint of None \<Rightarrow> False | Some opts \<Rightarrow> truthy (opt_enableFileUpload opts))"

text \<open>\<^verbatim>\<open>endpoint.options?.middlewares ?? []\<close>.\<close>

definition endpointMiddlewares :: "'h Endpoint \<Rightarrow> 'h list" where
  "endpointMiddlewares endpoint =
     (case options endpoint of
        None \<Rightarrow> []
      | Some opts \<Rightarrow> (case opt_middlewares opts of None \<Rightarrow> [] | Some ms \<Rightarrow> ms))"

text \<open>
  Lines 177--237. The router is mutated in place, so it is returned also when the method
  throws: the \<open>Use\<close> layers of lines 192--202 are registered before the \<^verbatim>\<open>switch\<close>. A
  module without a default export makes \<^verbatim>\<open>endpoint.name\<close> throw a \<^verbatim>\<open>TypeError\<close> before
  anything is registered.
\<close>

definition buildEndpoint ::
  "'v FunctionParser \<Rightarrow> ('v, 'h) Env \<Rightarrow> string \<Rightarrow> string \<Rightarrow> 'h layer list
     \<Rightarrow> error option \<times> 'h layer list" where
  "buildEndpoint this env file groupName router =
     (case requireDefault env file of
        None \<Rightarrow> (Some TypeError, router)
      | Some endpoint \<Rightarrow>
          let nm = endpointName endpoint file;
              router1 = (if enableCors this then router @ [Use Cors]
                         else if endpointCors endpoint then router @ [Use Cors]
                         else router);
              router2 = (if endpointFileUpload endpoint then router1 @ [Use FileUpload]
                         else router1);
              path = ''/'' @ groupName @ ''/'' @ nm;
              chain = endpointMiddlewares endpoint @ [handler endpoint]
          in if requestType endpoint = Some RequestType_GET
               then (None, router2 @ [Route Get path chain])
             else if requestType endpoint = Some RequestType_POST
               then (None, router2 @ [Route Post path chain])
             else if requestType endpoint = Some RequestType_PUT
               then (None, router2 @ [Route Put path chain])
             else if requestType endpoint = Some RequestType_DELETE
               then (None, router2 @ [Route Delete path chain])
             else if requestType endpoint = Some RequestType_PATCH
               then (None, router2 @ [Route Patch path chain])
             else (Some (Error unsupportedRequestType), router2))"

text \<open>
  Lines 133--164: the body of the \<^verbatim>\<open>forEach\<close> over the endpoint files, on the parser and the
  express objects. The router is stored in \<open>groupRouters\<close> before \<^verbatim>\<open>buildEndpoint\<close> runs
  and is mutated by it also when it throws; the mount and the publication of lines 158--163
  happen only when it returns.
\<close>

definition apiFile ::
  "('v, 'h) Env \<Rightarrow> bool \<Rightarrow> string \<Rightarrow> 'v FunctionParser \<times> 'h Express
     \<Rightarrow> error option \<times> 'v FunctionParser \<times> 'h Express" where
  "apiFile env groupByFolder file s =
     (let this = fst s; x = snd s;
          groupName = apiGroupName groupByFolder file;
          router = (case groupRouters x groupName of None \<Rightarrow> [] | Some r \<Rightarrow> r)
      in case buildEndpoint this env file groupName router of
           (Some e, router') \<Rightarrow>
             (Some (Error (failedToAdd file groupName)),
              this,
              x\<lparr>groupRouters := (groupRouters x)(groupName \<mapsto> router')\<rparr>)
         | (None, router') \<Rightarrow>
             (None,
              this\<lparr>exports := (exports this)(groupName \<mapsto>
                 (bag (exports this) groupName)(''api'' \<mapsto> OnRequest))\<rparr>,
              x\<lparr>groupRouters := (groupRouters x)(groupName \<mapsto> router'),
                app := app x @ [groupName]\<rparr>))"

text \<open>The \<^verbatim>\<open>forEach\<close> itself: a throw ends the loop and leaves the objects as they are.\<close>

fun apiLoop ::
  "('v, 'h) Env \<Rightarrow> bool \<Rightarrow> string list \<Rightarrow> 'v FunctionParser \<times> 'h Express
     \<Rightarrow> error option \<times> 'v FunctionParser \<times> 'h Express" where
  "apiLoop env groupByFolder [] s = (None, s)"
| "apiLoop env groupByFolder (file # files) s =
     (case apiFile env groupByFolder file s of
        (Some e, s') \<Rightarrow> (Some e, s')
      | (None, s') \<Rightarrow> apiLoop env groupByFolder files s')"

definition buildRestfulApi ::
  "('v, 'h) Env \<Rightarrow> bool \<Rightarrow> 'v FunctionParser
     \<Rightarrow> error option \<times> 'v FunctionParser \<times> 'h Express" where
  "buildRestfulApi env groupByFolder this =
     apiLoop env groupByFolder (apiFiles env) (this, \<lparr>app = [], groupRouters = Map.empty\<rparr>)"

section \<open>The constructor\<close>

text \<open>\<^verbatim>\<open>options?.flag ?? d\<close>.\<close>

definition option_or :: "ParserOptions option \<Rightarrow> (ParserOptions \<Rightarrow> bool option) \<Rightarrow> bool \<Rightarrow> bool" where
  "option_or opts field d =
     (case opts of None \<Rightarrow> d | Some po \<Rightarrow> (case field po of None \<Rightarrow> d | Some v \<Rightarrow> v))"

text \<open>
  Lines 43--65, on the properties \<^verbatim>\<open>rootPath\<close>, \<^verbatim>\<open>exports\<close>, \<^verbatim>\<open>options\<close> and \<^verbatim>\<open>verbose\<close>. The
  result is the error thrown, if any, the caller's namespace as the call leaves it, and the
  express objects the published adapters refer to.
\<close>

definition construct ::
  "('v, 'h) Env \<Rightarrow> string \<Rightarrow> 'v namespace \<Rightarrow> ParserOptions option \<Rightarrow> bool option
     \<Rightarrow> error option \<times> 'v namespace \<times> 'h Express" where
  "construct env root ns opts verb =
     (if root = []
      then (Some (Error ''rootPath is required to find the functions.''), ns,
            \<lparr>app = [], groupRouters = Map.empty\<rparr>)
      else
        let this0 = \<lparr>rootPath = root,
                     enableCors = option_or opts po_enableCors False,
                     exports = ns,
                     verbose = (case verb of None \<Rightarrow> False | Some v \<Rightarrow> v)\<rparr>;
            groupByFolder = option_or opts po_groupByFolder True;
            this1 = (if option_or opts po_buildReactive True
                     then buildReactiveFunctions env groupByFolder this0 else this0)
        in if option_or opts po_buildEndpoints True
           then (case buildRestfulApi env groupByFolder this1 of
                   (e, this2, x) \<Rightarrow> (e, exports this2, x))
           else (None, exports this1, \<lparr>app = [], groupRouters = Map.empty\<rparr>))"

section \<open>Reading the result\<close>

text \<open>A member of a group's bag: \<^verbatim>\<open>ns[g]?.[k]\<close>.\<close>

definition lookup :: "'v namespace \<Rightarrow> string \<Rightarrow> string \<Rightarrow> 'v exported option" where
  "lookup ns g k = (case ns g of None \<Rightarrow> None | Some b \<Rightarrow> b k)"

definition routerOf :: "'h Express \<Rightarrow> string \<Rightarrow> 'h layer list" where
  "routerOf x g = (case groupRouters x g of None \<Rightarrow> [] | Some r \<Rightarrow> r)"

fun isRoute :: "'h layer \<Rightarrow> bool" where
  "isRoute (Route v p hs) = True"
| "isRoute (Use b) = False"

text \<open>
  The routes a published adapter answers: \<^verbatim>\<open>functions.https.onRequest(app)\<close> hands every
  request to the application, which tries the routers mounted on it in mounting order.
\<close>

definition adapterRoutes :: "'h Express \<Rightarrow> 'h layer list" where
  "adapterRoutes x = concat (map (\<lambda>g. filter isRoute (routerOf x g)) (app x))"

text \<open>\<^verbatim>\<open>s.indexOf(pat)\<close>: the position of the first occurrence of \<open>pat\<close>, if any.\<close>

fun indexOf :: "string \<Rightarrow> string \<Rightarrow> nat option" where
  "indexOf [] pat = (if pat = [] then Some 0 else None)"
| "indexOf (x # xs) pat =
     (if take (length pat) (x # xs) = pat then Some 0
      else map_option Suc (indexOf xs pat))"

section \<open>The specification's vocabulary\<close>

text \<open>
  The router method that a declared request type selects, in the words of the
  specification: one of the five members of the enumeration, or none.
\<close>

definition routerMethod :: "string option \<Rightarrow> verb option" where
  "routerMethod rt =
     (if rt = Some RequestType_GET then Some Get
      else if rt = Some RequestType_POST then Some Post
      else if rt = Some RequestType_PUT then Some Put
      else if rt = Some RequestType_DELETE then Some Delete
      else if rt = Some RequestType_PATCH then Some Patch
      else None)"

text \<open>
  ``Merge the file's exported members into \<open>namespace[group]\<close>, overwriting any same-named
  prior export in that group.''
\<close>

definition spec_merge :: "('v, 'h) Env \<Rightarrow> bool \<Rightarrow> string \<Rightarrow> 'v namespace \<Rightarrow> 'v namespace" where
  "spec_merge env groupByFolder file ns =
     ns(reactiveGroupName groupByFolder file \<mapsto>
          bag ns (reactiveGroupName groupByFolder file) ++ (map_option Member \<circ> requireModule env file))"

text \<open>
  A file writes member \<open>k\<close> of group \<open>g\<close> when it passes the selector, belongs to \<open>g\<close> and
  exports \<open>k\<close>.
\<close>

definition writes :: "('v, 'h) Env \<Rightarrow> bool \<Rightarrow> string \<Rightarrow> string \<Rightarrow> string \<Rightarrow> bool" where
  "writes env groupByFolder g k file =
     (selected env file \<and> reactiveGroupName groupByFolder file = g \<and> requireModule env file k \<noteq> None)"

section \<open>Example inputs\<close>

text \<open>
  Concrete parsers, listings and modules on which the theorems below are evaluated. Exported
  members and handlers are numbered.
\<close>

definition parser0 :: "nat FunctionParser" where
  "parser0 = \<lparr>rootPath = ''root'', enableCors = False, exports = Map.empty, verbose = False\<rparr>"

definition express0 :: "nat Express" where
  "express0 = \<lparr>app = [], groupRouters = Map.empty\<rparr>"

text \<open>The options \<^verbatim>\<open>{ groupByFolder: false }\<close>.\<close>

definition by_parent :: "ParserOptions option" where
  "by_parent = Some \<lparr>po_enableCors = None, po_groupByFolder = Some False,
                      po_buildReactive = None, po_buildEndpoints = None\<rparr>"

definition endpoints_env :: "(string \<times> nat Endpoint) list \<Rightarrow> (nat, nat) Env" where
  "endpoints_env eps =
     \<lparr>functionFiles = [], apiFiles = map fst eps, requireModule = (\<lambda>f. Map.empty),
      requireDefault = map_of eps, FUNCTION_NAME = None\<rparr>"

definition functions_env :: "(string \<times> (string \<times> nat) list) list \<Rightarrow> string option \<Rightarrow> (nat, nat) Env" where
  "functions_env fs sel =
     \<lparr>functionFiles = map fst fs, apiFiles = [],
      requireModule = (\<lambda>f. case map_of fs f of None \<Rightarrow> Map.empty | Some m \<Rightarrow> map_of m),
      requireDefault = (\<lambda>f. None), FUNCTION_NAME = sel\<rparr>"

definition plain :: "string \<Rightarrow> nat \<Rightarrow> nat Endpoint" where
  "plain rt h = \<lparr>ep_name = None, requestType = Some rt, handler = h, options = None\<rparr>"

definition named :: "string \<Rightarrow> string \<Rightarrow> nat \<Rightarrow> nat Endpoint" where
  "named n rt h = \<lparr>ep_name = Some n, requestType = Some rt, handler = h, options = None\<rparr>"

definition with_cors :: "string \<Rightarrow> nat \<Rightarrow> nat Endpoint" where
  "with_cors rt h =
     \<lparr>ep_name = None, requestType = Some rt, handler = h,
      options = Some \<lparr>opt_enableCors = Some True, opt_enableFileUpload = None,
                       opt_middlewares = None\<rparr>\<rparr>"

text \<open>Two endpoint files in two different groups.\<close>

definition two_groups :: "(nat, nat) Env" where
  "two_groups = endpoints_env
     [(''root/users/a.endpoint.js'', plain ''GET'' 1),
      (''root/orders/b.endpoint.js'', plain ''GET'' 2)]"

text \<open>
  The example of the specification, \<^verbatim>\<open>billing/invoices.endpoint.js\<close> (GET, no name) and
  \<^verbatim>\<open>billing/refunds.endpoint.js\<close> (POST, named), and a third descriptor whose name is the empty
  string.
\<close>

definition billing :: "(nat, nat) Env" where
  "billing = endpoints_env
     [(''root/billing/invoices.endpoint.js'', plain ''GET'' 1),
      (''root/billing/refunds.endpoint.js'', named ''refunds'' ''POST'' 2),
      (''root/billing/empty.endpoint.js'', named [] ''GET'' 3)]"

text \<open>A group whose second file declares the request type \<^verbatim>\<open>"HEAD"\<close>.\<close>

definition head_request :: "(nat, nat) Env" where
  "head_request = endpoints_env
     [(''root/users/a.endpoint.js'', plain ''GET'' 1),
      (''root/users/c.endpoint.js'', plain ''HEAD'' 2)]"

text \<open>A group whose first file sets \<^verbatim>\<open>enableCors: true\<close> and whose second file does not.\<close>

definition cors_then_plain :: "(nat, nat) Env" where
  "cors_then_plain = endpoints_env
     [(''root/users/a.endpoint.js'', with_cors ''GET'' 1),
      (''root/users/c.endpoint.js'', plain ''POST'' 2)]"

text \<open>
  Background-function files of one group that export the same member \<open>x\<close>, under a given
  value of \<^verbatim>\<open>FUNCTION_NAME\<close>.
\<close>

definition foo_bar :: "string option \<Rightarrow> (nat, nat) Env" where
  "foo_bar sel = functions_env
     [(''root/a/foo.function.js'', [(''x'', 1), (''y'', 5)]),
      (''root/a/bar.function.js'', [(''x'', 2), (''z'', 6)])] sel"

definition foo_bar_baz :: "(nat, nat) Env" where
  "foo_bar_baz = functions_env
     [(''root/a/foo.function.js'', [(''x'', 1)]),
      (''root/a/bar.function.js'', [(''x'', 2)]),
      (''root/a/baz.function.js'', [(''x'', 3)])] None"

text \<open>One background-function file and one endpoint file in the same group.\<close>

definition mixed :: "(nat, nat) Env" where
  "mixed =
     \<lparr>functionFiles = [''root/a/foo.function.js''],
      apiFiles = [''root/a/ping.endpoint.js''],
      requireModule = (\<lambda>f. if f = ''root/a/foo.function.js'' then [''x'' \<mapsto> 1] else Map.empty),
      requireDefault = (\<lambda>f. if f = ''root/a/ping.endpoint.js'' then Some (plain ''GET'' 4) else None),
      FUNCTION_NAME = None\<rparr>"

section \<open>Strings and paths: properties\<close>

lemma split_not_Nil: "split s c \<noteq> []"
  by (induction s) (auto split: list.splits)

lemma indexOf_replace:
  "indexOf s pat = Some k \<Longrightarrow> replace s pat rep = take k s @ rep @ drop (k + length pat) s"
proof (induction s arbitrary: k)
  case Nil
  then show ?case by (simp split: if_splits)
next
  case (Cons x xs)
  show ?case
  proof (cases "take (length pat) (x # xs) = pat")
    case True
    with Cons.prems show ?thesis by simp
  next
    case False
    with Cons.prems obtain j where j: "indexOf xs pat = Some j" "k = Suc j" by auto
    from Cons.IH[OF j(1)] False j(2) show ?thesis by simp
  qed
qed

lemma length_replace_ge: "length s - length pat \<le> length (replace s pat [])"
  by (induction s) auto

lemma name_parse: "name (parse p) = strip_ext (base (parse p))"
  by (simp add: parse_def strip_ext_def Let_def)

lemma strip_ext_endpoint_js:
  "strip_ext (stem @ ''.endpoint.js'') = stem @ ''.endpoint''"
  by (simp add: strip_ext_def Let_def)

lemmas rt_defs =
  RequestType_GET_def RequestType_POST_def RequestType_PUT_def RequestType_DELETE_def
  RequestType_PATCH_def

text \<open>The groups and names of the example files.\<close>

lemma groups_eval:
  "apiGroupName False ''root/users/a.endpoint.js'' = ''users''"
  "apiGroupName False ''root/orders/b.endpoint.js'' = ''orders''"
  "apiGroupName False ''root/users/c.endpoint.js'' = ''users''"
  "name (parse ''root/users/a.endpoint.js'') = ''a.endpoint''"
  "name (parse ''root/orders/b.endpoint.js'') = ''b.endpoint''"
  "name (parse ''root/users/c.endpoint.js'') = ''c.endpoint''"
  by (simp_all add: apiGroupName_def parse_def strip_ext_def Let_def at_index_def or_else_def)

lemma billing_eval:
  "name (parse ''root/billing/invoices.endpoint.js'') = ''invoices.endpoint''"
  "name (parse ''root/billing/refunds.endpoint.js'') = ''refunds.endpoint''"
  "name (parse ''root/billing/empty.endpoint.js'') = ''empty.endpoint''"
  "apiGroupName False ''root/billing/invoices.endpoint.js'' = ''billing''"
  "apiGroupName False ''root/billing/refunds.endpoint.js'' = ''billing''"
  "apiGroupName False ''root/billing/empty.endpoint.js'' = ''billing''"
  by (simp_all add: apiGroupName_def parse_def strip_ext_def Let_def at_index_def or_else_def)

lemma billing_base:
  "base (parse ''root/billing/empty.endpoint.js'') = ''empty.endpoint.js''"
  by (simp add: parse_def Let_def)

lemma functions_eval:
  "reactiveGroupName False ''root/a/foo.function.js'' = ''a''"
  "reactiveGroupName False ''root/a/bar.function.js'' = ''a''"
  "reactiveGroupName False ''root/a/baz.function.js'' = ''a''"
  "functionName ''root/a/foo.function.js'' = ''foo''"
  "functionName ''root/a/bar.function.js'' = ''bar''"
  "functionName ''root/a/baz.function.js'' = ''baz''"
  by (simp_all add: reactiveGroupName_def functionName_def parse_def strip_ext_def Let_def
        at_index_def or_else_def)

lemma mixed_eval:
  "apiGroupName False ''root/a/ping.endpoint.js'' = ''a''"
  "name (parse ''root/a/ping.endpoint.js'') = ''ping.endpoint''"
  by (simp_all add: apiGroupName_def parse_def strip_ext_def Let_def at_index_def or_else_def)

section \<open>Grouping: properties\<close>

text \<open>
  C2. For every file path the group key is the second-to-last segment of the file's
  directory path when \<open>groupByFolder\<close> is on and the last segment otherwise, and the empty
  string when that segment is missing or empty; the key is computed by a total function,
  so nothing is raised; and the reactive pass and the endpoint pass compute the same key
  for the same path and flag.
\<close>

theorem C2_group_key:
  "reactiveGroupName groupByFolder file
     = spec_group_key groupByFolder (split (dir (parse file)) CHR ''/'')
   \<and> apiGroupName groupByFolder file = reactiveGroupName groupByFolder file"
proof -
  let ?ds = "split (dir (parse file)) CHR ''/''"
  have ne: "?ds \<noteq> []" by (rule split_not_Nil)
  then have len: "1 \<le> length ?ds" by (cases ?ds) auto
  have r: "reactiveGroupName groupByFolder file = spec_group_key groupByFolder ?ds"
  proof (cases groupByFolder)
    case True
    then show ?thesis
      using len
      by (auto simp: reactiveGroupName_def spec_group_key_def Let_def at_index_def or_else_def
            nat_diff_distrib' split: option.splits)
  next
    case False
    then show ?thesis
      using len
      by (auto simp: reactiveGroupName_def spec_group_key_def Let_def at_index_def or_else_def
            nat_diff_distrib' split: option.splits)
  qed
  have a: "apiGroupName groupByFolder file = reactiveGroupName groupByFolder file"
    by (simp add: apiGroupName_def reactiveGroupName_def)
  from r a show ?thesis by simp
qed

text \<open>
  C2 at concrete paths: the grandparent and the parent folder, and the two degenerate cases
  (no grandparent, no folder at all) that yield the empty key.
\<close>

theorem C2_group_key_witness:
  "reactiveGroupName True ''root/billing/sub/invoices.function.js'' = ''billing''
   \<and> reactiveGroupName False ''root/billing/sub/invoices.function.js'' = ''sub''
   \<and> apiGroupName True ''billing/invoices.endpoint.js'' = []
   \<and> apiGroupName False ''invoices.endpoint.js'' = []
   \<and> spec_group_key True (split (dir (parse ''billing/invoices.endpoint.js'')) CHR ''/'') = []"
  using C2_group_key[of True "''billing/invoices.endpoint.js''"]
  by (simp add: reactiveGroupName_def apiGroupName_def parse_def strip_ext_def Let_def
        at_index_def or_else_def)

section \<open>One endpoint file: properties of \<open>buildEndpoint\<close>\<close>

lemma buildEndpoint_supported:
  assumes "requireDefault env file = Some ep" and "routerMethod (requestType ep) = Some v"
  shows "fst (buildEndpoint this env file g router) = None"
    and "filter isRoute (snd (buildEndpoint this env file g router))
          = filter isRoute router @ [Route v (''/'' @ g @ ''/'' @ endpointName ep file) (endpointMiddlewares ep @ [handler ep])]"
  using assms
  by (auto simp: buildEndpoint_def routerMethod_def Let_def rt_defs split: if_splits)

lemma buildEndpoint_unsupported:
  assumes "requireDefault env file = Some ep" and "routerMethod (requestType ep) = None"
  shows "fst (buildEndpoint this env file g router) = Some (Error unsupportedRequestType)"
    and "filter isRoute (snd (buildEndpoint this env file g router)) = filter isRoute router"
  using assms
  by (auto simp: buildEndpoint_def routerMethod_def Let_def rt_defs split: if_splits)

lemma buildEndpoint_extends: "\<exists>extra. snd (buildEndpoint this env file g router) = router @ extra"
  by (auto simp: buildEndpoint_def Let_def split: option.splits)

lemma buildEndpoint_cors:
  assumes "requireDefault env file = Some ep" and "endpointCors ep"
  shows "\<exists>extra. snd (buildEndpoint this env file g router) = router @ Use Cors # extra"
  using assms by (auto simp: buildEndpoint_def Let_def)

text \<open>
  C3, as stated, at a descriptor whose \<open>name\<close> field is present and is the empty string: the
  registered path is not \<^verbatim>\<open>/billing/\<close> followed by that name, the file name is used instead.
\<close>

theorem C3_empty_name_counterexample:
  "requireDefault billing ''root/billing/empty.endpoint.js'' = Some (named [] ''GET'' 3)
   \<and> ep_name (named [] ''GET'' 3 :: nat Endpoint) = Some []
   \<and> snd (buildEndpoint parser0 billing ''root/billing/empty.endpoint.js'' ''billing'' [])
       = [Route Get ''/billing/empty'' [3]]
   \<and> ''/billing/empty'' \<noteq> ''/billing/'' @ []"
  by (simp add: billing_def endpoints_env_def named_def plain_def buildEndpoint_def parser0_def
        endpointName_def endpointCors_def endpointFileUpload_def endpointMiddlewares_def
        billing_eval rt_defs or_else_def Let_def)

text \<open>
  C3, amended. For every endpoint file whose descriptor has a supported request type,
  \<open>buildEndpoint\<close> returns normally and registers exactly one route, after the routes
  already on the router; its path is \<^verbatim>\<open>/{group}/{name}\<close>, where \<^verbatim>\<open>{name}\<close> is the descriptor's
  \<open>name\<close> field when that is present and not empty, and otherwise, when \<^verbatim>\<open>.endpoint\<close> occurs
  in the file name only as its trailing tag, the file name with that tag stripped; its
  handler chain is the descriptor's middlewares (none when absent) followed by its handler,
  and it is registered with the router method of the declared request type.
\<close>

theorem C3_route_path:
  assumes "requireDefault env file = Some ep"
      and "routerMethod (requestType ep) = Some v"
  shows "fst (buildEndpoint this env file g router) = None
    \<and> (\<exists>n. filter isRoute (snd (buildEndpoint this env file g router))
             = filter isRoute router
               @ [Route v (''/'' @ g @ ''/'' @ n) (endpointMiddlewares ep @ [handler ep])]
          \<and> (\<forall>e. ep_name ep = Some e \<and> e \<noteq> [] \<longrightarrow> n = e)
          \<and> ((ep_name ep = None \<or> ep_name ep = Some [])
               \<and> indexOf (name (parse file)) ''.endpoint''
                    = Some (length (name (parse file)) - length ''.endpoint'')
             \<longrightarrow> n = take (length (name (parse file)) - length ''.endpoint'') (name (parse file))))"
proof -
  let ?nm = "name (parse file)"
  have a: "\<forall>e. ep_name ep = Some e \<and> e \<noteq> [] \<longrightarrow> endpointName ep file = e"
    by (simp add: endpointName_def or_else_def)
  have b: "(ep_name ep = None \<or> ep_name ep = Some [])
            \<and> indexOf ?nm ''.endpoint'' = Some (length ?nm - length ''.endpoint'')
          \<longrightarrow> endpointName ep file = take (length ?nm - length ''.endpoint'') ?nm"
  proof
    assume h: "(ep_name ep = None \<or> ep_name ep = Some [])
            \<and> indexOf ?nm ''.endpoint'' = Some (length ?nm - length ''.endpoint'')"
    then have "endpointName ep file = replace ?nm ''.endpoint'' []"
      by (auto simp: endpointName_def or_else_def)
    also have "\<dots> = take (length ?nm - length ''.endpoint'') ?nm
                      @ [] @ drop (length ?nm - length ''.endpoint'' + length ''.endpoint'') ?nm"
      using h by (intro indexOf_replace) simp
    also have "\<dots> = take (length ?nm - length ''.endpoint'') ?nm" by simp
    finally show "endpointName ep file = take (length ?nm - length ''.endpoint'') ?nm" .
  qed
  from buildEndpoint_supported[OF assms, of this g router] a b show ?thesis by blast
qed

text \<open>C3 on the specification's example: one file without a name, one with the name \<^verbatim>\<open>refunds\<close>.\<close>

theorem C3_route_path_witness:
  "requireDefault billing ''root/billing/invoices.endpoint.js'' = Some (plain ''GET'' 1)
   \<and> routerMethod (requestType (plain ''GET'' 1 :: nat Endpoint)) = Some Get
   \<and> filter isRoute (snd (buildEndpoint parser0 billing ''root/billing/invoices.endpoint.js'' ''billing'' []))
       = [Route Get ''/billing/invoices'' [1]]
   \<and> requireDefault billing ''root/billing/refunds.endpoint.js'' = Some (named ''refunds'' ''POST'' 2)
   \<and> routerMethod (requestType (named ''refunds'' ''POST'' 2 :: nat Endpoint)) = Some Post
   \<and> filter isRoute (snd (buildEndpoint parser0 billing ''root/billing/refunds.endpoint.js'' ''billing'' []))
       = [Route Post ''/billing/refunds'' [2]]"
  using C3_route_path[of billing "''root/billing/invoices.endpoint.js''" "plain ''GET'' 1" Get parser0 "''billing''" "[]"]
        C3_route_path[of billing "''root/billing/refunds.endpoint.js''" "named ''refunds'' ''POST'' 2" Post parser0 "''billing''" "[]"]
  by (simp add: billing_def endpoints_env_def plain_def named_def routerMethod_def rt_defs
        billing_eval endpointMiddlewares_def)

text \<open>
  \<^verbatim>\<open>replace\<close> removes the first occurrence of the tag, which is not the trailing one when the
  file name holds the tag twice.
\<close>

lemma endpointName_first_occurrence:
  "replace ''a.endpoint.b.endpoint'' ''.endpoint'' [] = ''a.b.endpoint''"
  by simp

text \<open>
  C10. For every endpoint descriptor whose \<open>name\<close> field is present but is the empty string,
  the only falsy value of a string, the name is the one derived from the file name (the
  file name with the \<^verbatim>\<open>.endpoint\<close> tag removed); for a file that the pattern
  \<^verbatim>\<open>*.endpoint.js\<close> matches, whose star stands for a non-empty stem, that name is not empty,
  so a route that \<open>buildEndpoint\<close> registers never has the path \<^verbatim>\<open>/{group}/\<close>.
\<close>

theorem C10_falsy_name_falls_back:
  assumes "requireDefault env file = Some ep"
      and "ep_name ep = Some []"
      and "base (parse file) = stem @ ''.endpoint.js''"
      and "stem \<noteq> []"
  shows "endpointName ep file = replace (name (parse file)) ''.endpoint'' []
    \<and> endpointName ep file \<noteq> []
    \<and> (\<forall>v p hs. Route v p hs \<in> set (snd (buildEndpoint this env file g router))
                  \<and> Route v p hs \<notin> set router
          \<longrightarrow> p = ''/'' @ g @ ''/'' @ endpointName ep file \<and> p \<noteq> ''/'' @ g @ ''/'')"
proof -
  have nm: "name (parse file) = stem @ ''.endpoint''"
    using assms(3) by (simp add: name_parse strip_ext_endpoint_js)
  have 1: "endpointName ep file = replace (name (parse file)) ''.endpoint'' []"
    using assms(2) by (simp add: endpointName_def or_else_def)
  have "length (stem @ ''.endpoint'') - length ''.endpoint''
          \<le> length (replace (stem @ ''.endpoint'') ''.endpoint'' [])"
    by (rule length_replace_ge)
  then have "1 \<le> length (replace (name (parse file)) ''.endpoint'' [])"
    using nm assms(4) by (cases stem) auto
  with 1 have 2: "endpointName ep file \<noteq> []" by auto
  have 3: "\<forall>v p hs. Route v p hs \<in> set (snd (buildEndpoint this env file g router))
                  \<and> Route v p hs \<notin> set router
          \<longrightarrow> p = ''/'' @ g @ ''/'' @ endpointName ep file"
    using assms(1) by (auto simp: buildEndpoint_def Let_def split: if_splits)
  have 4: "''/'' @ g @ ''/'' @ endpointName ep file \<noteq> ''/'' @ g @ ''/''"
    using 2 by simp
  from 1 2 3 4 show ?thesis by metis
qed

text \<open>C10 on the descriptor with the empty name in the billing example.\<close>

theorem C10_falsy_name_falls_back_witness:
  "requireDefault billing ''root/billing/empty.endpoint.js'' = Some (named [] ''GET'' 3)
   \<and> ep_name (named [] ''GET'' 3 :: nat Endpoint) = Some []
   \<and> base (parse ''root/billing/empty.endpoint.js'') = ''empty'' @ ''.endpoint.js''
   \<and> ''empty'' \<noteq> []
   \<and> endpointName (named [] ''GET'' 3 :: nat Endpoint) ''root/billing/empty.endpoint.js'' = ''empty''
   \<and> Route Get ''/billing/empty'' [3]
        \<in> set (snd (buildEndpoint parser0 billing ''root/billing/empty.endpoint.js'' ''billing'' []))"
  using C10_falsy_name_falls_back[of billing "''root/billing/empty.endpoint.js''" "named [] ''GET'' 3"
          "''empty''" parser0 "''billing''" "[]"]
  by (simp add: billing_def endpoints_env_def named_def plain_def buildEndpoint_def parser0_def
        endpointName_def endpointCors_def endpointFileUpload_def endpointMiddlewares_def
        billing_eval billing_base rt_defs or_else_def Let_def)

section \<open>The endpoint pass: properties\<close>

lemma apiLoop_append:
  "apiLoop env gbf (xs @ ys) s =
     (case apiLoop env gbf xs s of (Some e, s') \<Rightarrow> (Some e, s') | (None, s') \<Rightarrow> apiLoop env gbf ys s')"
  by (induction xs arbitrary: s) (auto split: prod.splits option.splits)

lemma apiFile_failure:
  assumes "fst (buildEndpoint (fst s) env file (apiGroupName gbf file) (routerOf (snd s) (apiGroupName gbf file))) = Some e"
  shows "fst (apiFile env gbf file s) = Some (Error (failedToAdd file (apiGroupName gbf file)))"
    and "fst (snd (apiFile env gbf file s)) = fst s"
    and "app (snd (snd (apiFile env gbf file s))) = app (snd s)"
    and "routerOf (snd (snd (apiFile env gbf file s))) g' =
           (if g' = apiGroupName gbf file
            then snd (buildEndpoint (fst s) env file (apiGroupName gbf file) (routerOf (snd s) (apiGroupName gbf file)))
            else routerOf (snd s) g')"
  using assms
  by (auto simp: apiFile_def Let_def routerOf_def split: prod.splits option.splits)

lemma apiFile_router:
  "\<exists>extra. routerOf (snd (snd (apiFile env gbf f s))) g = routerOf (snd s) g @ extra"
proof -
  obtain extra where e: "snd (buildEndpoint (fst s) env f (apiGroupName gbf f) (routerOf (snd s) (apiGroupName gbf f)))
      = routerOf (snd s) (apiGroupName gbf f) @ extra"
    using buildEndpoint_extends by blast
  show ?thesis
  proof (cases "g = apiGroupName gbf f")
    case True
    with e show ?thesis
      by (auto simp: apiFile_def Let_def routerOf_def split: prod.splits option.splits)
  next
    case False
    then have "routerOf (snd (snd (apiFile env gbf f s))) g = routerOf (snd s) g @ []"
      by (auto simp: apiFile_def Let_def routerOf_def split: prod.splits option.splits)
    then show ?thesis by blast
  qed
qed

lemma apiFile_cors:
  assumes "requireDefault env f = Some ep" and "endpointCors ep"
  shows "\<exists>extra. routerOf (snd (snd (apiFile env gbf f s))) (apiGroupName gbf f)
           = routerOf (snd s) (apiGroupName gbf f) @ Use Cors # extra"
proof -
  obtain extra where e: "snd (buildEndpoint (fst s) env f (apiGroupName gbf f) (routerOf (snd s) (apiGroupName gbf f)))
      = routerOf (snd s) (apiGroupName gbf f) @ Use Cors # extra"
    using buildEndpoint_cors[OF assms] by blast
  then show ?thesis
    by (auto simp: apiFile_def Let_def routerOf_def split: prod.splits option.splits)
qed

lemma apiLoop_router:
  "\<exists>extra. routerOf (snd (snd (apiLoop env gbf fs s))) g = routerOf (snd s) g @ extra"
proof (induction fs arbitrary: s)
  case Nil
  then show ?case by simp
next
  case (Cons f fs)
  obtain e s1 where st: "apiFile env gbf f s = (e, s1)" by (cases "apiFile env gbf f s") auto
  obtain ex1 where ex1: "routerOf (snd s1) g = routerOf (snd s) g @ ex1"
    using apiFile_router[of env gbf f s g] st by auto
  show ?case
  proof (cases e)
    case None
    obtain ex2 where "routerOf (snd (snd (apiLoop env gbf fs s1))) g = routerOf (snd s1) g @ ex2"
      using Cons.IH by blast
    with ex1 st None show ?thesis by simp
  next
    case (Some a)
    with ex1 st show ?thesis by simp
  qed
qed

lemma apiFile_exports_other:
  "apiGroupName gbf f \<noteq> g \<Longrightarrow> exports (fst (snd (apiFile env gbf f s))) g = exports (fst s) g"
  by (auto simp: apiFile_def Let_def split: prod.splits option.splits)

lemma apiFile_lookup:
  "k \<noteq> ''api'' \<Longrightarrow> lookup (exports (fst (snd (apiFile env gbf f s)))) g k = lookup (exports (fst s)) g k"
  by (auto simp: apiFile_def Let_def lookup_def bag_def split: prod.splits option.splits)

lemma apiFile_error_exports:
  "fst (apiFile env gbf f s) = Some e \<Longrightarrow> fst (snd (apiFile env gbf f s)) = fst s"
  by (auto simp: apiFile_def Let_def split: prod.splits option.splits)

lemma apiLoop_exports_other:
  "\<forall>f \<in> set fs. apiGroupName gbf f \<noteq> g \<Longrightarrow> exports (fst (snd (apiLoop env gbf fs s))) g = exports (fst s) g"
proof (induction fs arbitrary: s)
  case Nil
  then show ?case by simp
next
  case (Cons f fs)
  obtain e s1 where st: "apiFile env gbf f s = (e, s1)" by (cases "apiFile env gbf f s") auto
  have 1: "exports (fst s1) g = exports (fst s) g"
    using apiFile_exports_other[of gbf f g env s] Cons.prems st by simp
  show ?case
  proof (cases e)
    case None
    with st 1 Cons.IH[of s1] Cons.prems show ?thesis by simp
  next
    case (Some a)
    with st 1 show ?thesis by simp
  qed
qed

lemma apiLoop_lookup:
  "k \<noteq> ''api'' \<Longrightarrow> lookup (exports (fst (snd (apiLoop env gbf fs s)))) g k = lookup (exports (fst s)) g k"
proof (induction fs arbitrary: s)
  case Nil
  then show ?case by simp
next
  case (Cons f fs)
  obtain e s1 where st: "apiFile env gbf f s = (e, s1)" by (cases "apiFile env gbf f s") auto
  have 1: "lookup (exports (fst s1)) g k = lookup (exports (fst s)) g k"
    using apiFile_lookup[of k env gbf f s g] Cons.prems st by simp
  show ?case
  proof (cases e)
    case None
    with st 1 Cons.IH[of s1] Cons.prems show ?thesis by simp
  next
    case (Some a)
    with st 1 show ?thesis by simp
  qed
qed

lemma head_request_first:
  "apiFile head_request False ''root/users/a.endpoint.js'' (parser0, express0)
     = (None,
        parser0\<lparr>exports := [''users'' \<mapsto> [''api'' \<mapsto> OnRequest]]\<rparr>,
        \<lparr>app = [''users''], groupRouters = [''users'' \<mapsto> [Route Get ''/users/a'' [1]]]\<rparr>)"
  by (simp add: head_request_def endpoints_env_def plain_def apiFile_def parser0_def express0_def
        buildEndpoint_def endpointName_def endpointCors_def endpointFileUpload_def
        endpointMiddlewares_def groups_eval rt_defs or_else_def bag_def Let_def)

lemma head_request_second:
  "fst (apiFile head_request False ''root/users/c.endpoint.js'' s)
     = Some (Error (failedToAdd ''root/users/c.endpoint.js'' ''users''))"
  by (simp add: head_request_def endpoints_env_def plain_def apiFile_def
        buildEndpoint_def endpointName_def endpointCors_def endpointFileUpload_def
        endpointMiddlewares_def groups_eval rt_defs or_else_def bag_def Let_def split: prod.splits)

lemma cors_then_plain_run:
  "apiLoop cors_then_plain False [''root/users/a.endpoint.js'', ''root/users/c.endpoint.js'']
     (parser0, express0)
   = (None,
      parser0\<lparr>exports := [''users'' \<mapsto> [''api'' \<mapsto> OnRequest]]\<rparr>,
      \<lparr>app = [''users'', ''users''],
       groupRouters = [''users'' \<mapsto>
          [Use Cors, Route Get ''/users/a'' [1], Route Post ''/users/c'' [2]]]\<rparr>)"
  by (simp add: cors_then_plain_def endpoints_env_def plain_def with_cors_def apiFile_def
        parser0_def express0_def buildEndpoint_def endpointName_def endpointCors_def
        endpointFileUpload_def endpointMiddlewares_def truthy_def groups_eval rt_defs or_else_def
        bag_def Let_def)

text \<open>
  C1 fails on the code. The application of line 129 is created once, before the loop, and
  every group's router is mounted on it; each group's \<open>api\<close> entry wraps this one
  application. With one file in group \<^verbatim>\<open>users\<close> and one in group \<^verbatim>\<open>orders\<close>, the adapter
  published under \<^verbatim>\<open>users\<close> (and the one under \<^verbatim>\<open>orders\<close>) answers the routes of both groups.
\<close>

theorem C1_shared_application:
  "fst (construct two_groups ''root'' Map.empty by_parent None) = None
   \<and> lookup (fst (snd (construct two_groups ''root'' Map.empty by_parent None))) ''users'' ''api''
       = Some OnRequest
   \<and> lookup (fst (snd (construct two_groups ''root'' Map.empty by_parent None))) ''orders'' ''api''
       = Some OnRequest
   \<and> adapterRoutes (snd (snd (construct two_groups ''root'' Map.empty by_parent None)))
       = [Route Get ''/users/a'' [1], Route Get ''/orders/b'' [2]]"
  by (simp add: construct_def by_parent_def option_or_def buildReactiveFunctions_def
        buildRestfulApi_def two_groups_def endpoints_env_def plain_def apiFile_def
        buildEndpoint_def endpointName_def endpointCors_def endpointFileUpload_def
        endpointMiddlewares_def groups_eval rt_defs or_else_def bag_def lookup_def
        adapterRoutes_def routerOf_def Let_def)

text \<open>
  C4, as stated, on a file that declares \<^verbatim>\<open>"HEAD"\<close>: the error that construction throws is
  the one built in the \<^verbatim>\<open>catch\<close> block of lines 152--156; its message names the file and the
  group and does not mention the request type.
\<close>

theorem C4_wrapper_counterexample:
  "fst (construct head_request ''root'' Map.empty by_parent None)
     = Some (Error ''Restful Endpoints - Failed to add the endpoint defined in root/users/c.endpoint.js to the users Api.'')
   \<and> indexOf ''Restful Endpoints - Failed to add the endpoint defined in root/users/c.endpoint.js to the users Api.''
        ''RequestType'' = None"
  by (simp add: construct_def by_parent_def option_or_def buildReactiveFunctions_def
        buildRestfulApi_def head_request_def endpoints_env_def plain_def apiFile_def
        buildEndpoint_def endpointName_def endpointCors_def endpointFileUpload_def
        endpointMiddlewares_def groups_eval rt_defs or_else_def bag_def failedToAdd_def Let_def)

text \<open>
  C4, amended. For every endpoint descriptor whose \<open>requestType\<close> is missing or is not one
  of GET, POST, PUT, DELETE, PATCH, \<open>buildEndpoint\<close> throws the descriptive error, whose
  message names the \<^verbatim>\<open>RequestType\<close> requirement, and registers no route; the per-file step
  of \<open>buildRestfulApi\<close> replaces that error by one whose message names the offending file
  and its group, leaves the namespace and the mounted routers as they were and adds no
  route to any router; and the loop, hence construction, ends with this error.
\<close>

theorem C4_unsupported_request_type:
  assumes "requireDefault env file = Some ep"
      and "routerMethod (requestType ep) = None"
  shows "fst (buildEndpoint this env file g router) = Some (Error unsupportedRequestType)
    \<and> indexOf unsupportedRequestType ''RequestType'' = Some 14
    \<and> filter isRoute (snd (buildEndpoint this env file g router)) = filter isRoute router
    \<and> fst (apiFile env groupByFolder file s)
         = Some (Error (failedToAdd file (apiGroupName groupByFolder file)))
    \<and> fst (snd (apiFile env groupByFolder file s)) = fst s
    \<and> app (snd (snd (apiFile env groupByFolder file s))) = app (snd s)
    \<and> (\<forall>g'. filter isRoute (routerOf (snd (snd (apiFile env groupByFolder file s))) g')
               = filter isRoute (routerOf (snd s) g'))
    \<and> fst (apiLoop env groupByFolder (file # files) s)
         = Some (Error (failedToAdd file (apiGroupName groupByFolder file)))"
proof -
  let ?g = "apiGroupName groupByFolder file"
  have e: "fst (buildEndpoint (fst s) env file ?g (routerOf (snd s) ?g))
             = Some (Error unsupportedRequestType)"
    by (rule buildEndpoint_unsupported(1)[OF assms])
  have r: "filter isRoute (snd (buildEndpoint (fst s) env file ?g (routerOf (snd s) ?g)))
             = filter isRoute (routerOf (snd s) ?g)"
    by (rule buildEndpoint_unsupported(2)[OF assms])
  have 1: "fst (buildEndpoint this env file g router) = Some (Error unsupportedRequestType)"
    by (rule buildEndpoint_unsupported(1)[OF assms])
  have 2: "indexOf unsupportedRequestType ''RequestType'' = Some 14"
    by (simp add: unsupportedRequestType_def newline_def)
  have 3: "filter isRoute (snd (buildEndpoint this env file g router)) = filter isRoute router"
    by (rule buildEndpoint_unsupported(2)[OF assms])
  have 4: "fst (apiFile env groupByFolder file s) = Some (Error (failedToAdd file ?g))"
    by (rule apiFile_failure(1)[OF e])
  have 5: "fst (snd (apiFile env groupByFolder file s)) = fst s"
    by (rule apiFile_failure(2)[OF e])
  have 6: "app (snd (snd (apiFile env groupByFolder file s))) = app (snd s)"
    by (rule apiFile_failure(3)[OF e])
  have 7: "\<forall>g'. filter isRoute (routerOf (snd (snd (apiFile env groupByFolder file s))) g')
               = filter isRoute (routerOf (snd s) g')"
    using r by (simp add: apiFile_failure(4)[OF e])
  have 8: "fst (apiLoop env groupByFolder (file # files) s) = Some (Error (failedToAdd file ?g))"
    using 4 by (cases "apiFile env groupByFolder file s") (auto split: option.splits)
  from 1 2 3 4 5 6 7 8 show ?thesis by simp
qed

text \<open>C4 on the \<^verbatim>\<open>"HEAD"\<close> file of the example.\<close>

theorem C4_unsupported_request_type_witness:
  "requireDefault head_request ''root/users/c.endpoint.js'' = Some (plain ''HEAD'' 2)
   \<and> routerMethod (requestType (plain ''HEAD'' 2 :: nat Endpoint)) = None
   \<and> fst (buildEndpoint parser0 head_request ''root/users/c.endpoint.js'' ''users'' [])
       = Some (Error unsupportedRequestType)
   \<and> fst (apiFile head_request False ''root/users/c.endpoint.js'' (parser0, express0))
       = Some (Error (failedToAdd ''root/users/c.endpoint.js'' ''users''))
   \<and> fst (snd (apiFile head_request False ''root/users/c.endpoint.js'' (parser0, express0))) = parser0"
  using C4_unsupported_request_type[of head_request "''root/users/c.endpoint.js''" "plain ''HEAD'' 2"
          parser0 "''users''" "[]" False "(parser0, express0)" "[]"]
  by (simp add: head_request_def endpoints_env_def plain_def routerMethod_def rt_defs groups_eval)

text \<open>
  C5. In every run of the endpoint pass (in particular with global CORS off), when the
  file now processed has a descriptor that sets \<^verbatim>\<open>enableCors: true\<close>, its step registers the
  CORS middleware on the router of its group, behind the layers already there; and
  whatever the later files register on that router, up to the end of the run or to the file
  on which it throws, is registered behind that middleware, which therefore acts on every
  such route.
\<close>

theorem C5_cors_henceforth:
  assumes "requireDefault env file = Some ep"
      and "options ep = Some opts"
      and "opt_enableCors opts = Some True"
      and "apiLoop env groupByFolder before s0 = (None, s1)"
      and "apiLoop env groupByFolder (before @ file # later) s0 = (e, s2)"
  shows "\<exists>rest extra.
           routerOf (snd (snd (apiFile env groupByFolder file s1))) (apiGroupName groupByFolder file)
             = routerOf (snd s1) (apiGroupName groupByFolder file) @ Use Cors # rest
         \<and> routerOf (snd s2) (apiGroupName groupByFolder file)
             = routerOf (snd s1) (apiGroupName groupByFolder file) @ Use Cors # rest @ extra"
proof -
  let ?g = "apiGroupName groupByFolder file"
  have c: "endpointCors ep"
    using assms(2,3) by (simp add: endpointCors_def truthy_def)
  obtain rest where rest:
    "routerOf (snd (snd (apiFile env groupByFolder file s1))) ?g = routerOf (snd s1) ?g @ Use Cors # rest"
    using apiFile_cors[OF assms(1) c] by blast
  obtain e1 t where st: "apiFile env groupByFolder file s1 = (e1, t)"
    by (cases "apiFile env groupByFolder file s1") auto
  have run: "apiLoop env groupByFolder (before @ file # later) s0
               = (case e1 of Some a \<Rightarrow> (Some a, t) | None \<Rightarrow> apiLoop env groupByFolder later t)"
    using assms(4) st by (simp add: apiLoop_append split: option.splits)
  have "\<exists>extra. routerOf (snd s2) ?g = routerOf (snd t) ?g @ extra"
  proof (cases e1)
    case None
    with run assms(5) have "apiLoop env groupByFolder later t = (e, s2)" by simp
    then show ?thesis using apiLoop_router[of env groupByFolder later t ?g] by simp
  next
    case (Some a)
    with run assms(5) have "s2 = t" by simp
    then show ?thesis by simp
  qed
  then obtain extra where "routerOf (snd s2) ?g = routerOf (snd t) ?g @ extra" by blast
  with rest st have "routerOf (snd s2) ?g = routerOf (snd s1) ?g @ Use Cors # rest @ extra"
    by simp
  with rest show ?thesis by blast
qed

text \<open>C5 on a group of two files, the first with the flag: the route of the second lies behind \<open>Use Cors\<close>.\<close>

theorem C5_cors_henceforth_witness:
  "enableCors (fst (parser0, express0)) = False
   \<and> requireDefault cors_then_plain ''root/users/a.endpoint.js'' = Some (with_cors ''GET'' 1)
   \<and> opt_enableCors \<lparr>opt_enableCors = Some True, opt_enableFileUpload = None,
                       opt_middlewares = (None :: nat list option)\<rparr> = Some True
   \<and> apiLoop cors_then_plain False [] (parser0, express0) = (None, parser0, express0)
   \<and> routerOf (snd (snd (apiLoop cors_then_plain False
         ([] @ ''root/users/a.endpoint.js'' # [''root/users/c.endpoint.js'']) (parser0, express0)))) ''users''
       = [] @ Use Cors # [Route Get ''/users/a'' [1]] @ [Route Post ''/users/c'' [2]]"
  using C5_cors_henceforth[of cors_then_plain "''root/users/a.endpoint.js''"
          "with_cors ''GET'' 1"
          "\<lparr>opt_enableCors = Some True, opt_enableFileUpload = None, opt_middlewares = None\<rparr>"
          False "[]" "(parser0, express0)" "(parser0, express0)" "[''root/users/c.endpoint.js'']" None
          "(parser0\<lparr>exports := [''users'' \<mapsto> [''api'' \<mapsto> OnRequest]]\<rparr>,
            \<lparr>app = [''users'', ''users''],
             groupRouters = [''users'' \<mapsto>
               [Use Cors, Route Get ''/users/a'' [1], Route Post ''/users/c'' [2]]]\<rparr>)"]
        cors_then_plain_run
  by (simp add: routerOf_def parser0_def cors_then_plain_def endpoints_env_def with_cors_def)

text \<open>
  C8. If the per-file step fails on the \<open>k\<close>-th endpoint file, after the first \<open>k\<close> files
  were processed without error, then \<open>buildRestfulApi\<close> ends with that error and the
  namespace is exactly the one the first \<open>k\<close> files left: group keys, merged exports and
  published \<open>api\<close> entries included, nothing rolled back.
\<close>

theorem C8_no_rollback:
  assumes "k < length (apiFiles env)"
      and "apiLoop env groupByFolder (take k (apiFiles env)) (this, \<lparr>app = [], groupRouters = Map.empty\<rparr>)
             = (None, sk)"
      and "fst (apiFile env groupByFolder (apiFiles env ! k) sk) = Some e"
  shows "fst (buildRestfulApi env groupByFolder this) = Some e
    \<and> exports (fst (snd (buildRestfulApi env groupByFolder this))) = exports (fst sk)"
proof -
  let ?s0 = "(this, \<lparr>app = [], groupRouters = Map.empty\<rparr>) :: 'a FunctionParser \<times> 'b Express"
  let ?fs = "apiFiles env"
  have split: "?fs = take k ?fs @ (?fs ! k) # drop (Suc k) ?fs"
    using assms(1) by (rule id_take_nth_drop)
  obtain s' where st: "apiFile env groupByFolder (?fs ! k) sk = (Some e, s')"
    using assms(3) by (cases "apiFile env groupByFolder (?fs ! k) sk") auto
  have this': "fst s' = fst sk"
    using apiFile_error_exports[OF assms(3)] st by simp
  have "apiLoop env groupByFolder (take k ?fs @ (?fs ! k) # drop (Suc k) ?fs) ?s0 = (Some e, s')"
    using assms(2) st by (simp add: apiLoop_append)
  then have "apiLoop env groupByFolder ?fs ?s0 = (Some e, s')"
    using split by simp
  then show ?thesis
    using this' by (simp add: buildRestfulApi_def)
qed

text \<open>C8 on the example whose second file fails: the \<open>api\<close> entry of the first file is still there.\<close>

theorem C8_no_rollback_witness:
  "(1::nat) < length (apiFiles head_request)
   \<and> apiLoop head_request False (take 1 (apiFiles head_request)) (parser0, \<lparr>app = [], groupRouters = Map.empty\<rparr>)
       = (None, parser0\<lparr>exports := [''users'' \<mapsto> [''api'' \<mapsto> OnRequest]]\<rparr>,
          \<lparr>app = [''users''], groupRouters = [''users'' \<mapsto> [Route Get ''/users/a'' [1]]]\<rparr>)
   \<and> fst (buildRestfulApi head_request False parser0)
       = Some (Error (failedToAdd ''root/users/c.endpoint.js'' ''users''))
   \<and> lookup (exports (fst (snd (buildRestfulApi head_request False parser0)))) ''users'' ''api''
       = Some OnRequest"
proof -
  have files: "apiFiles head_request = [''root/users/a.endpoint.js'', ''root/users/c.endpoint.js'']"
    by (simp add: head_request_def endpoints_env_def)
  have pre: "apiLoop head_request False (take 1 (apiFiles head_request)) (parser0, \<lparr>app = [], groupRouters = Map.empty\<rparr>)
       = (None, parser0\<lparr>exports := [''users'' \<mapsto> [''api'' \<mapsto> OnRequest]]\<rparr>,
          \<lparr>app = [''users''], groupRouters = [''users'' \<mapsto> [Route Get ''/users/a'' [1]]]\<rparr>)"
    using head_request_first by (simp add: files express0_def)
  have k: "(1::nat) < length (apiFiles head_request)" by (simp add: files)
  have step: "fst (apiFile head_request False (apiFiles head_request ! 1)
                 (parser0\<lparr>exports := [''users'' \<mapsto> [''api'' \<mapsto> OnRequest]]\<rparr>,
                  \<lparr>app = [''users''], groupRouters = [''users'' \<mapsto> [Route Get ''/users/a'' [1]]]\<rparr>))
              = Some (Error (failedToAdd ''root/users/c.endpoint.js'' ''users''))"
    by (simp add: files head_request_second)
  from C8_no_rollback[OF k pre step] k pre show ?thesis
    by (simp add: lookup_def)
qed

section \<open>The reactive pass: properties\<close>

lemma functionFile_spec:
  "functionFile env gbf f this =
     (if selected env f then this\<lparr>exports := spec_merge env gbf f (exports this)\<rparr> else this)"
  by (auto simp: functionFile_def spec_merge_def Let_def bag_def split: option.splits)

lemma functionFile_exports_other:
  "reactiveGroupName gbf f \<noteq> g \<Longrightarrow> exports (functionFile env gbf f this) g = exports this g"
  by (simp add: functionFile_spec spec_merge_def)

lemma fold_functionFile_exports_other:
  "\<forall>f \<in> set fs. reactiveGroupName gbf f \<noteq> g \<Longrightarrow>
     exports (fold (functionFile env gbf) fs this) g = exports this g"
  by (induction fs arbitrary: this) (simp_all add: functionFile_exports_other)

lemma functionFile_lookup:
  "lookup (exports (functionFile env gbf f this)) g k =
     (if writes env gbf g k f then map_option Member (requireModule env f k)
      else lookup (exports this) g k)"
  by (auto simp: functionFile_spec spec_merge_def writes_def lookup_def bag_def map_add_def
        split: option.splits)

lemma fold_functionFile_lookup:
  "lookup (exports (fold (functionFile env gbf) fs this)) g k =
     (case filter (writes env gbf g k) fs of
        [] \<Rightarrow> lookup (exports this) g k
      | w # ws \<Rightarrow> map_option Member (requireModule env (last (w # ws)) k))"
proof (induction fs rule: rev_induct)
  case Nil
  then show ?case by simp
next
  case (snoc f fs)
  show ?case
  proof (cases "writes env gbf g k f")
    case True
    then have "filter (writes env gbf g k) (fs @ [f]) = filter (writes env gbf g k) fs @ [f]" by simp
    then show ?thesis using True
      by (cases "filter (writes env gbf g k) fs") (simp_all add: functionFile_lookup)
  next
    case False
    then show ?thesis using snoc.IH by (simp add: functionFile_lookup)
  qed
qed

lemma fold_functionFile_select_some:
  assumes "FUNCTION_NAME env = Some s" and "s \<noteq> []"
  shows "exports (fold (functionFile env gbf) fs this)
           = fold (spec_merge env gbf) (filter (\<lambda>f. functionName f = s) fs) (exports this)"
  using assms
  by (induction fs arbitrary: this) (auto simp: functionFile_spec selected_def)

lemma fold_functionFile_select_all:
  assumes "FUNCTION_NAME env = None \<or> FUNCTION_NAME env = Some []"
  shows "exports (fold (functionFile env gbf) fs this) = fold (spec_merge env gbf) fs (exports this)"
  using assms
  by (induction fs arbitrary: this) (auto simp: functionFile_spec selected_def)

lemma last_filter_nth:
  assumes "j < length xs" and "P (xs ! j)"
      and "\<forall>m. j < m \<and> m < length xs \<longrightarrow> \<not> P (xs ! m)"
  shows "filter P xs = filter P (take j xs) @ [xs ! j]"
proof -
  have xs: "xs = take j xs @ xs ! j # drop (Suc j) xs"
    using assms(1) by (rule id_take_nth_drop)
  have "\<forall>x \<in> set (drop (Suc j) xs). \<not> P x"
  proof
    fix x assume "x \<in> set (drop (Suc j) xs)"
    then obtain n where n: "n < length (drop (Suc j) xs)" "x = drop (Suc j) xs ! n"
      by (auto simp: in_set_conv_nth)
    then have "x = xs ! (Suc j + n)" and "Suc j + n < length xs" by auto
    with assms(3) show "\<not> P x" by simp
  qed
  then have d: "filter P (drop (Suc j) xs) = []" by (simp add: filter_empty_conv)
  have "filter P xs = filter P (take j xs @ xs ! j # drop (Suc j) xs)"
    using xs by simp
  also have "\<dots> = filter P (take j xs) @ [xs ! j]"
    using assms(2) d by simp
  finally show ?thesis .
qed

lemma reactive_member_present:
  assumes "f \<in> set fs" and "writes env gbf g k f"
  shows "lookup (exports (fold (functionFile env gbf) fs this)) g k \<noteq> None"
proof -
  from assms have ne: "filter (writes env gbf g k) fs \<noteq> []"
    by (auto simp: filter_empty_conv)
  then obtain w ws where ws: "filter (writes env gbf g k) fs = w # ws"
    by (cases "filter (writes env gbf g k) fs") auto
  have "last (w # ws) \<in> set (filter (writes env gbf g k) fs)"
    using ws last_in_set[of "w # ws"] by simp
  then have "writes env gbf g k (last (w # ws))" by simp
  then have "requireModule env (last (w # ws)) k \<noteq> None" by (simp add: writes_def)
  then show ?thesis
    by (simp add: fold_functionFile_lookup ws)
qed

text \<open>
  C6, as stated, with the selector set to the empty string: the file \<^verbatim>\<open>foo.function.js\<close>,
  whose logical name \<^verbatim>\<open>foo\<close> differs from the selector, is merged all the same.
\<close>

theorem C6_empty_selector_counterexample:
  "FUNCTION_NAME (foo_bar (Some [])) = Some []
   \<and> functionName ''root/a/foo.function.js'' = ''foo''
   \<and> ''foo'' \<noteq> []
   \<and> lookup (exports (buildReactiveFunctions (foo_bar (Some [])) False parser0)) ''a'' ''y''
       = Some (Member 5)"
  by (simp add: foo_bar_def functions_env_def functions_eval buildReactiveFunctions_def
        functionFile_def selected_def lookup_def bag_def parser0_def map_add_def Let_def)

text \<open>
  C6, amended. When \<^verbatim>\<open>FUNCTION_NAME\<close> is set to a non-empty value \<open>s\<close>, the reactive pass
  merges exactly the files whose logical name equals \<open>s\<close>, in listing order, and skips the
  others, whatever their group; the pass has no error to raise. When the variable is unset
  or empty, every listed file is merged.
\<close>

theorem C6_selector:
  "(FUNCTION_NAME env = Some s \<and> s \<noteq> []
      \<longrightarrow> exports (buildReactiveFunctions env groupByFolder this)
            = fold (spec_merge env groupByFolder)
                (filter (\<lambda>f. functionName f = s) (functionFiles env)) (exports this))
   \<and> (FUNCTION_NAME env = None \<or> FUNCTION_NAME env = Some []
      \<longrightarrow> exports (buildReactiveFunctions env groupByFolder this)
            = fold (spec_merge env groupByFolder) (functionFiles env) (exports this))"
  using fold_functionFile_select_some[of env s groupByFolder "functionFiles env" this]
        fold_functionFile_select_all[of env groupByFolder "functionFiles env" this]
  by (simp add: buildReactiveFunctions_def)

text \<open>C6 with the selector \<^verbatim>\<open>bar\<close> (only \<^verbatim>\<open>bar.function.js\<close> is merged) and without a selector.\<close>

theorem C6_selector_witness:
  "FUNCTION_NAME (foo_bar (Some ''bar'')) = Some ''bar'' \<and> ''bar'' \<noteq> []
   \<and> lookup (exports (buildReactiveFunctions (foo_bar (Some ''bar'')) False parser0)) ''a'' ''x''
       = Some (Member 2)
   \<and> lookup (exports (buildReactiveFunctions (foo_bar (Some ''bar'')) False parser0)) ''a'' ''y''
       = None
   \<and> FUNCTION_NAME (foo_bar None) = None
   \<and> lookup (exports (buildReactiveFunctions (foo_bar None) False parser0)) ''a'' ''y''
       = Some (Member 5)
   \<and> lookup (exports (buildReactiveFunctions (foo_bar None) False parser0)) ''a'' ''z''
       = Some (Member 6)"
  using C6_selector[of "foo_bar (Some ''bar'')" "''bar''" False parser0]
        C6_selector[of "foo_bar None" "''bar''" False parser0]
  by (simp add: foo_bar_def functions_env_def functions_eval spec_merge_def lookup_def bag_def
        parser0_def map_add_def)

text \<open>
  C7, as stated, fails in two ways: when the selector skips the later file of the pair, the
  value of the earlier one stays; and when a third file, later still, exports the same
  member, neither value of the pair is the one present.
\<close>

theorem C7_pair_counterexample:
  "selected (foo_bar (Some ''foo'')) ''root/a/bar.function.js'' = False
   \<and> requireModule (foo_bar (Some ''foo'')) ''root/a/foo.function.js'' ''x'' = Some 1
   \<and> requireModule (foo_bar (Some ''foo'')) ''root/a/bar.function.js'' ''x'' = Some 2
   \<and> lookup (exports (buildReactiveFunctions (foo_bar (Some ''foo'')) False parser0)) ''a'' ''x''
       = Some (Member 1)
   \<and> functionFiles foo_bar_baz
       = [''root/a/foo.function.js'', ''root/a/bar.function.js'', ''root/a/baz.function.js'']
   \<and> requireModule foo_bar_baz ''root/a/foo.function.js'' ''x'' = Some 1
   \<and> requireModule foo_bar_baz ''root/a/bar.function.js'' ''x'' = Some 2
   \<and> lookup (exports (buildReactiveFunctions foo_bar_baz False parser0)) ''a'' ''x''
       = Some (Member 3)"
  by (simp add: foo_bar_def foo_bar_baz_def functions_env_def functions_eval
        buildReactiveFunctions_def functionFile_def selected_def lookup_def bag_def parser0_def
        map_add_def Let_def)

text \<open>
  C7, amended. For every pair of background-function files of one group that both pass
  the selector and export a member under the same name, if no file listed after the later
  one writes that member of the group, the value in \<open>namespace[group]\<close> after the reactive
  pass is the one of the later file; and every member that either file exports is present
  in \<open>namespace[group]\<close>.
\<close>

theorem C7_last_writer_wins:
  assumes "i < j" and "j < length (functionFiles env)"
      and "selected env (functionFiles env ! i)"
      and "selected env (functionFiles env ! j)"
      and "reactiveGroupName groupByFolder (functionFiles env ! i) = g"
      and "reactiveGroupName groupByFolder (functionFiles env ! j) = g"
      and "requireModule env (functionFiles env ! i) k = Some v1"
      and "requireModule env (functionFiles env ! j) k = Some v2"
      and "\<forall>m. j < m \<and> m < length (functionFiles env)
              \<longrightarrow> \<not> writes env groupByFolder g k (functionFiles env ! m)"
  shows "lookup (exports (buildReactiveFunctions env groupByFolder this)) g k = Some (Member v2)
    \<and> (\<forall>k'. requireModule env (functionFiles env ! i) k' \<noteq> None
              \<or> requireModule env (functionFiles env ! j) k' \<noteq> None
         \<longrightarrow> lookup (exports (buildReactiveFunctions env groupByFolder this)) g k' \<noteq> None)"
proof -
  let ?fs = "functionFiles env"
  have wj: "writes env groupByFolder g k (?fs ! j)"
    using assms(4,6,8) by (simp add: writes_def)
  have "filter (writes env groupByFolder g k) ?fs
          = filter (writes env groupByFolder g k) (take j ?fs) @ [?fs ! j]"
    using assms(2) wj assms(9) by (rule last_filter_nth)
  then have 1: "lookup (exports (buildReactiveFunctions env groupByFolder this)) g k = Some (Member v2)"
    using assms(8)
    by (cases "filter (writes env groupByFolder g k) (take j ?fs)")
       (simp_all add: buildReactiveFunctions_def fold_functionFile_lookup)
  have 2: "lookup (exports (buildReactiveFunctions env groupByFolder this)) g k' \<noteq> None"
    if h: "requireModule env (?fs ! i) k' \<noteq> None \<or> requireModule env (?fs ! j) k' \<noteq> None" for k'
  proof -
    from assms(1,2) have mem: "?fs ! i \<in> set ?fs" "?fs ! j \<in> set ?fs" by auto
    from h show ?thesis
    proof
      assume "requireModule env (?fs ! i) k' \<noteq> None"
      then have "writes env groupByFolder g k' (?fs ! i)"
        using assms(3,5) by (simp add: writes_def)
      with mem(1) show ?thesis
        unfolding buildReactiveFunctions_def by (rule reactive_member_present)
    next
      assume "requireModule env (?fs ! j) k' \<noteq> None"
      then have "writes env groupByFolder g k' (?fs ! j)"
        using assms(4,6) by (simp add: writes_def)
      with mem(2) show ?thesis
        unfolding buildReactiveFunctions_def by (rule reactive_member_present)
    qed
  qed
  from 1 2 show ?thesis by blast
qed

text \<open>C7 on two files that both export \<open>x\<close>, and \<open>y\<close> and \<open>z\<close> apart.\<close>

theorem C7_last_writer_wins_witness:
  "(0::nat) < 1 \<and> (1::nat) < length (functionFiles (foo_bar None))
   \<and> selected (foo_bar None) (functionFiles (foo_bar None) ! 0)
   \<and> selected (foo_bar None) (functionFiles (foo_bar None) ! 1)
   \<and> reactiveGroupName False (functionFiles (foo_bar None) ! 0) = ''a''
   \<and> reactiveGroupName False (functionFiles (foo_bar None) ! 1) = ''a''
   \<and> requireModule (foo_bar None) (functionFiles (foo_bar None) ! 0) ''x'' = Some 1
   \<and> requireModule (foo_bar None) (functionFiles (foo_bar None) ! 1) ''x'' = Some 2
   \<and> lookup (exports (buildReactiveFunctions (foo_bar None) False parser0)) ''a'' ''x''
       = Some (Member 2)
   \<and> lookup (exports (buildReactiveFunctions (foo_bar None) False parser0)) ''a'' ''y'' \<noteq> None
   \<and> lookup (exports (buildReactiveFunctions (foo_bar None) False parser0)) ''a'' ''z'' \<noteq> None"
proof -
  have files: "functionFiles (foo_bar None) = [''root/a/foo.function.js'', ''root/a/bar.function.js'']"
    by (simp add: foo_bar_def functions_env_def)
  have sel: "selected (foo_bar None) f" for f
    by (simp add: selected_def foo_bar_def functions_env_def)
  have later: "\<forall>m. 1 < m \<and> m < length (functionFiles (foo_bar None))
          \<longrightarrow> \<not> writes (foo_bar None) False ''a'' ''x'' (functionFiles (foo_bar None) ! m)"
    by (auto simp: files)
  have g0: "reactiveGroupName False (functionFiles (foo_bar None) ! 0) = ''a''"
    by (simp add: files functions_eval)
  have g1: "reactiveGroupName False (functionFiles (foo_bar None) ! 1) = ''a''"
    by (simp add: files functions_eval)
  have x0: "requireModule (foo_bar None) (functionFiles (foo_bar None) ! 0) ''x'' = Some 1"
    by (simp add: foo_bar_def functions_env_def)
  have x1: "requireModule (foo_bar None) (functionFiles (foo_bar None) ! 1) ''x'' = Some 2"
    by (simp add: foo_bar_def functions_env_def)
  have len: "(1::nat) < length (functionFiles (foo_bar None))" by (simp add: files)
  have y: "requireModule (foo_bar None) (functionFiles (foo_bar None) ! 0) ''y'' \<noteq> None"
    by (simp add: foo_bar_def functions_env_def)
  have z: "requireModule (foo_bar None) (functionFiles (foo_bar None) ! 1) ''z'' \<noteq> None"
    by (simp add: foo_bar_def functions_env_def)
  from C7_last_writer_wins[of 0 1 "foo_bar None", OF _ len sel sel g0 g1 x0 x1 later, of parser0]
       len sel g0 g1 x0 x1 y z
  show ?thesis by simp
qed

section \<open>The caller's namespace\<close>

text \<open>
  C9. A key of the namespace that is not the group key of any listed file, of either
  kind, holds after construction the value it held before, whether construction succeeds or
  throws; and the endpoint pass leaves every member of every group other than \<open>api\<close> as it
  was, so publishing the adapter adds to a group's bag and never replaces it.
\<close>

theorem C9_frame:
  "((\<forall>f \<in> set (functionFiles env).
        reactiveGroupName (option_or opts po_groupByFolder True) f \<noteq> g)
      \<and> (\<forall>f \<in> set (apiFiles env).
        apiGroupName (option_or opts po_groupByFolder True) f \<noteq> g)
     \<longrightarrow> fst (snd (construct env root ns opts verb)) g = ns g)
   \<and> (k \<noteq> ''api''
     \<longrightarrow> lookup (exports (fst (snd (buildRestfulApi env groupByFolder this)))) g k
           = lookup (exports this) g k)"
proof
  let ?gbf = "option_or opts po_groupByFolder True"
  show "(\<forall>f \<in> set (functionFiles env). reactiveGroupName ?gbf f \<noteq> g)
      \<and> (\<forall>f \<in> set (apiFiles env). apiGroupName ?gbf f \<noteq> g)
     \<longrightarrow> fst (snd (construct env root ns opts verb)) g = ns g"
  proof
    assume h: "(\<forall>f \<in> set (functionFiles env). reactiveGroupName ?gbf f \<noteq> g)
      \<and> (\<forall>f \<in> set (apiFiles env). apiGroupName ?gbf f \<noteq> g)"
    have r: "exports (buildReactiveFunctions env ?gbf this') g = exports this' g" for this'
      using h by (simp add: buildReactiveFunctions_def fold_functionFile_exports_other)
    have a: "exports (fst (snd (buildRestfulApi env ?gbf this'))) g = exports this' g" for this'
      using h apiLoop_exports_other[of "apiFiles env" ?gbf g env]
      by (simp add: buildRestfulApi_def)
    show "fst (snd (construct env root ns opts verb)) g = ns g"
      using r a by (simp add: construct_def Let_def case_prod_beta)
  qed
next
  show "k \<noteq> ''api''
     \<longrightarrow> lookup (exports (fst (snd (buildRestfulApi env groupByFolder this)))) g k
           = lookup (exports this) g k"
    by (simp add: buildRestfulApi_def apiLoop_lookup)
qed

text \<open>
  C9 on a namespace that already has the key \<^verbatim>\<open>kept\<close>, and on a group bag with the member
  \<open>x\<close> to which the adapter is added.
\<close>

theorem C9_frame_witness:
  "reactiveGroupName (option_or by_parent po_groupByFolder True) ''root/a/foo.function.js'' = ''a''
   \<and> apiGroupName (option_or by_parent po_groupByFolder True) ''root/a/ping.endpoint.js'' = ''a''
   \<and> ''a'' \<noteq> ''kept''
   \<and> fst (snd (construct mixed ''root'' [''kept'' \<mapsto> [''old'' \<mapsto> Member 9]] by_parent None)) ''kept''
       = Some [''old'' \<mapsto> Member 9]
   \<and> ''x'' \<noteq> ''api''
   \<and> lookup (exports (fst (snd (buildRestfulApi mixed False
         (parser0\<lparr>exports := [''a'' \<mapsto> [''x'' \<mapsto> Member 1]]\<rparr>))))) ''a'' ''x''
       = Some (Member 1)
   \<and> lookup (exports (fst (snd (buildRestfulApi mixed False
         (parser0\<lparr>exports := [''a'' \<mapsto> [''x'' \<mapsto> Member 1]]\<rparr>))))) ''a'' ''api''
       = Some OnRequest"
proof -
  have gbf: "option_or by_parent po_groupByFolder True = False"
    by (simp add: by_parent_def option_or_def)
  have api: "lookup (exports (fst (snd (buildRestfulApi mixed False
         (parser0\<lparr>exports := [''a'' \<mapsto> [''x'' \<mapsto> Member 1]]\<rparr>))))) ''a'' ''api''
       = Some OnRequest"
    by (simp add: buildRestfulApi_def mixed_def plain_def apiFile_def parser0_def
        buildEndpoint_def endpointName_def endpointCors_def endpointFileUpload_def
        endpointMiddlewares_def mixed_eval rt_defs or_else_def bag_def lookup_def Let_def)
  from C9_frame[where env = mixed and opts = by_parent and g = "''kept''" and root = "''root''"
         and ns = "[''kept'' \<mapsto> [''old'' \<mapsto> Member 9]]" and verb = None]
       C9_frame[where env = mixed and g = "''a''" and k = "''x''" and groupByFolder = False
         and this = "parser0\<lparr>exports := [''a'' \<mapsto> [''x'' \<mapsto> Member 1]]\<rparr>"] api
  show ?thesis
    by (simp add: gbf functions_eval mixed_eval mixed_def lookup_def)
qed

end
